theory Spec2Isabelle
  imports Main "HOL-Library.AList"
begin

section \<open>Part I: the compiler of \<open>src/control.tsx\<close> over values\<close>

subsection \<open>Values\<close>

text \<open>
  JavaScript primitives. Numbers are only copied and tested for truthiness by the
  compiler, so they are integers here (\<open>NaN\<close> and fractions are not represented).
  Strings are only compared and concatenated; they are lists of characters.
\<close>

datatype prim = PUndefined | PNull | PBool bool | PNum int | PStr string

text \<open>
  The values an \<open>sx\<close> property can hold (\<open>SxProperty\<close>): a primitive, a theme
  function, an array, or a plain object. A plain object is the list of its own enumerable
  properties in the order of \<open>Object.keys\<close>, and its prototype is \<open>Object.prototype\<close>. A
  function object carries a name, which stands for its identity in the trace of calls. A
  theme is a plain object read only by the caller's functions, so it is a map from key to
  value; theme functions return primitives (\<open>(theme: Theme) => Value\<close> with \<open>Value\<close> a CSS
  value), and Part II takes up the theme function that returns an object. Functions
  supplied by the caller are total: one that throws is not represented.
\<close>

type_synonym 'tv theme = "string \<rightharpoonup> 'tv"

datatype 'tv sxval =
    Lit prim
  | Fun string "'tv theme \<Rightarrow> prim"
  | Arr "'tv sxval list"
  | Obj "(string \<times> 'tv sxval) list"

type_synonym 'tv sxobject = "(string \<times> 'tv sxval) list"

text \<open>\<open>CSSObject\<close>: a level of the output holds primitives and nested levels.\<close>

datatype cssval = CPrim prim | CObj "(string \<times> cssval) list"

type_synonym cssobject = "(string \<times> cssval) list"

text \<open>
  How a call can end other than by returning. \<open>TypeError\<close>: in strict mode (module code)
  an assignment to a property of a primitive throws. \<open>RangeError\<close>: the call stack is used
  up (Part II). \<open>NotModelled\<close> is no exception of the code: it marks a run that reads or
  calls a member inherited from a built-in prototype, or gives an object another prototype.
  What the code does from there on is decided by the built-in objects of the realm, which
  are not represented, so such a run is cut off and nothing is stated about it.
\<close>

datatype error = TypeError | RangeError | NotModelled

text \<open>The calls of caller-supplied functions, in the order they happen.\<close>

datatype 'tv event =
    ThemeCall string "'tv theme"
  | MapCall string "'tv sxval" "'tv theme"

subsection \<open>Property keys\<close>

text \<open>
  The names of the properties of \<open>Object.prototype\<close> (ECMAScript 2015 with its Annex B):
  every plain object answers a read of one of these names, through its prototype, when it
  has no own property of the name.
\<close>

definition inherited :: "string \<Rightarrow> bool" where
  "inherited k =
     (k \<in> set [''constructor'', ''hasOwnProperty'', ''isPrototypeOf'', ''propertyIsEnumerable'',
               ''toLocaleString'', ''toString'', ''valueOf'', ''__proto__'',
               ''__defineGetter__'', ''__defineSetter__'', ''__lookupGetter__'',
               ''__lookupSetter__''])"

text \<open>
  The decimal digits of a canonical numeric string (\<open>0\<close>, or digits with no leading zero).
  Such a key below \<open>2^32 - 1\<close> is an array index: \<open>Object.keys\<close> lists the array indices
  of an object first, in ascending order, and the other keys after them in the order they
  were added.
\<close>

definition digit_val :: "char \<Rightarrow> nat option" where
  "digit_val c =
     map_of [(CHR ''0'', 0), (CHR ''1'', 1), (CHR ''2'', 2), (CHR ''3'', 3), (CHR ''4'', 4),
             (CHR ''5'', 5), (CHR ''6'', 6), (CHR ''7'', 7), (CHR ''8'', 8), (CHR ''9'', 9)] c"

fun index_val :: "nat \<Rightarrow> string \<Rightarrow> nat option" where
  "index_val acc [] = Some acc"
| "index_val acc (c # cs) =
     (case digit_val c of None \<Rightarrow> None | Some d \<Rightarrow> index_val (10 * acc + d) cs)"

definition canonical_index :: "string \<Rightarrow> nat option" where
  "canonical_index k =
     (if k = [] then None
      else if hd k = CHR ''0'' \<and> tl k \<noteq> [] then None
      else index_val 0 k)"

definition array_index :: "string \<Rightarrow> nat option" where
  "array_index k =
     (case canonical_index k of
        Some i \<Rightarrow> if i < 4294967295 then Some i else None
      | None \<Rightarrow> None)"

text \<open>
  \<open>own_put k v kvs\<close>: the own properties after \<open>k\<close> is given the value \<open>v\<close>. A key the
  object has keeps its place; a new array index goes among the array indices, by value; any
  other new key goes last.
\<close>

fun insert_index :: "nat \<Rightarrow> string \<times> 'v \<Rightarrow> (string \<times> 'v) list \<Rightarrow> (string \<times> 'v) list" where
  "insert_index i kv [] = [kv]"
| "insert_index i kv (kv' # kvs) =
     (case array_index (fst kv') of
        Some j \<Rightarrow> if j < i then kv' # insert_index i kv kvs else kv # kv' # kvs
      | None \<Rightarrow> kv # kv' # kvs)"

definition own_put :: "string \<Rightarrow> 'v \<Rightarrow> (string \<times> 'v) list \<Rightarrow> (string \<times> 'v) list" where
  "own_put k v kvs =
     (case map_of kvs k of
        Some old \<Rightarrow> AList.update k v kvs
      | None \<Rightarrow>
          (case array_index k of
             Some i \<Rightarrow> insert_index i (k, v) kvs
           | None \<Rightarrow> kvs @ [(k, v)]))"

subsection \<open>\<open>Control\<close> and the default selectors\<close>

record control =
  select :: "string \<Rightarrow> string"
  active :: "bool option"
  checked :: "bool option"
  disabled :: "bool option"
  focus :: "bool option"
  hover :: "bool option"

text \<open>\<open>keyof Control\<close>, the type of the argument of \<open>createDefaultSelector\<close>.\<close>

datatype control_key = Select | Active | Checked | Disabled | Focus | Hover

fun key_name :: "control_key \<Rightarrow> string" where
  "key_name Select = ''select''"
| "key_name Active = ''active''"
| "key_name Checked = ''checked''"
| "key_name Disabled = ''disabled''"
| "key_name Focus = ''focus''"
| "key_name Hover = ''hover''"

text \<open>
  \<open>control[type]\<close>, as far as the resolver looks at it: \<open>None\<close> when it is
  \<open>undefined\<close>, otherwise its truthiness. \<open>select\<close> is always a function.
\<close>

fun control_get :: "control \<Rightarrow> control_key \<Rightarrow> bool option" where
  "control_get c Select = Some True"
| "control_get c Active = active c"
| "control_get c Checked = checked c"
| "control_get c Disabled = disabled c"
| "control_get c Focus = focus c"
| "control_get c Hover = hover c"

type_synonym 'tv sxselector = "'tv theme \<Rightarrow> control option \<Rightarrow> string option"

type_synonym 'tv sxselectors = "(string \<times> 'tv sxselector) list"

fun createDefaultSelector :: "control_key \<Rightarrow> 'tv sxselector" where
  "createDefaultSelector type theme None = Some (''&:'' @ key_name type)"
| "createDefaultSelector type theme (Some control) =
     (case control_get control type of
        Some flag \<Rightarrow> if flag then Some ''&'' else None
      | None \<Rightarrow> Some (select control ('':'' @ key_name type) @ '' &''))"

definition defaultSelectors :: "'tv sxselectors" where
  "defaultSelectors =
     [(''active'', createDefaultSelector Active),
      (''checked'', createDefaultSelector Checked),
      (''disabled'', createDefaultSelector Disabled),
      (''focus'', createDefaultSelector Focus),
      (''focusWithin'', createDefaultSelector Focus),
      (''hover'', createDefaultSelector Hover)]"

subsection \<open>Reading and writing a level of the output\<close>

fun truthy_prim :: "prim \<Rightarrow> bool" where
  "truthy_prim PUndefined = False"
| "truthy_prim PNull = False"
| "truthy_prim (PBool b) = b"
| "truthy_prim (PNum n) = (n \<noteq> 0)"
| "truthy_prim (PStr s) = (s \<noteq> [])"

fun truthy :: "cssval \<Rightarrow> bool" where
  "truthy (CPrim p) = truthy_prim p"
| "truthy (CObj kvs) = True"

text \<open>
  \<open>output[key]\<close>, on a level or on a primitive that stands where a level should. An own
  property answers the read. Without one, a level answers with the member it inherits when
  the key names one, and with \<open>undefined\<close> otherwise. The own properties of a string are its
  \<open>length\<close> and its characters; every other key of a primitive is looked up in the
  prototype of its wrapper, which is not represented.
\<close>

fun get_prop :: "cssval \<Rightarrow> string \<Rightarrow> error + cssval" where
  "get_prop (CObj kvs) k =
     (case map_of kvs k of
        Some v \<Rightarrow> Inr v
      | None \<Rightarrow> if inherited k then Inl NotModelled else Inr (CPrim PUndefined))"
| "get_prop (CPrim (PStr s)) k =
     (if k = ''length'' then Inr (CPrim (PNum (int (length s))))
      else case canonical_index k of
        Some i \<Rightarrow> if i < length s then Inr (CPrim (PStr [s ! i])) else Inl NotModelled
      | None \<Rightarrow> Inl NotModelled)"
| "get_prop (CPrim p) k = Inl NotModelled"

text \<open>
  \<open>output[key] = value\<close>. On a primitive the assignment throws. The key \<open>__proto__\<close>,
  when it is no own property, reaches the setter of \<open>Object.prototype\<close>: given an object or
  \<open>null\<close> it changes the prototype, given anything else it does nothing, and it adds no
  property either way.
\<close>

fun is_prototype :: "cssval \<Rightarrow> bool" where
  "is_prototype (CObj kvs) = True"
| "is_prototype (CPrim p) = (p = PNull)"

fun set_prop :: "cssval \<Rightarrow> string \<Rightarrow> cssval \<Rightarrow> error + cssval" where
  "set_prop (CObj kvs) k v =
     (if k = ''__proto__'' \<and> map_of kvs k = None then
        (if is_prototype v then Inl NotModelled else Inr (CObj kvs))
      else Inr (CObj (own_put k v kvs)))"
| "set_prop (CPrim p) k v =
     (if k = ''__proto__'' \<and> p \<noteq> PUndefined \<and> p \<noteq> PNull then Inr (CPrim p)
      else Inl TypeError)"

text \<open>\<open>if (!output[selector]) { output[selector] = {} }\<close>\<close>

definition ensure_level :: "cssval \<Rightarrow> string \<Rightarrow> error + cssval" where
  "ensure_level output selector =
     (case get_prop output selector of
        Inl e \<Rightarrow> Inl e
      | Inr v \<Rightarrow> if \<not> truthy v then set_prop output selector (CObj []) else Inr output)"

text \<open>
  The source holds a nested level by reference and writes into it in place. Here the
  recursive call returns the level it was given, updated, and \<open>put_back\<close> stores it
  where it was read from. A primitive is not changed by the call, and stays.
\<close>

fun put_back :: "cssval \<Rightarrow> string \<Rightarrow> cssval \<Rightarrow> cssval" where
  "put_back (CObj kvs) k v = CObj (AList.update k v kvs)"
| "put_back (CPrim p) k v = CPrim p"

subsection \<open>The property compiler\<close>

text \<open>
  \<open>selectors[selectorName] ? selectors[selectorName](theme, control) : selectorName\<close>;
  \<open>None\<close> is \<open>null\<close>. A name that is no own key of the registry but names an inherited
  member finds that member, which is truthy, and calls it.
\<close>

definition resolve_selector ::
  "'tv theme \<Rightarrow> 'tv sxselectors \<Rightarrow> control option \<Rightarrow> string \<Rightarrow> error + string option" where
  "resolve_selector theme selectors control selectorName =
     (case map_of selectors selectorName of
        Some resolver \<Rightarrow> Inr (resolver theme control)
      | None \<Rightarrow> if inherited selectorName then Inl NotModelled else Inr (Some selectorName))"

text \<open>
  Modelled from the spec: \<open>isPlainObject\<close> is imported from \<open>./isPlainObject\<close>, which
  is not among the sources. The spec's property compiler takes a nested mapping as a
  selector map and ignores any other shape (\<open>null\<close>, \<open>undefined\<close>, an array), so
  \<open>isPlainObject\<close> holds of the \<open>Obj\<close> values and of no other.
\<close>

fun isPlainObject :: "'tv sxval \<Rightarrow> bool" where
  "isPlainObject (Obj kvs) = True"
| "isPlainObject x = False"

text \<open>
  \<open>mutableCompileSxProperty\<close>, with the output level and the trace passed through.
  \<open>compileSelectorNames\<close> is its \<open>for (const selectorName of selectorNames)\<close> loop. The
  equations follow the tests of the source in their order: \<open>typeof x === 'function'\<close>,
  \<open>typeof x === 'number' || typeof x === 'string'\<close>, \<open>isPlainObject(x)\<close>, and no branch
  for anything else.
\<close>

fun mutableCompileSxProperty ::
  "'tv theme \<Rightarrow> 'tv sxselectors \<Rightarrow> control option \<Rightarrow> cssval \<times> 'tv event list \<Rightarrow> string \<Rightarrow>
   'tv sxval \<Rightarrow> error + cssval \<times> 'tv event list"
and compileSelectorNames ::
  "'tv theme \<Rightarrow> 'tv sxselectors \<Rightarrow> control option \<Rightarrow> cssval \<times> 'tv event list \<Rightarrow> string \<Rightarrow>
   (string \<times> 'tv sxval) list \<Rightarrow> error + cssval \<times> 'tv event list"
where
  "mutableCompileSxProperty theme selectors control (output, tr) propName (Fun n f) =
     (case set_prop output propName (CPrim (f theme)) of
        Inl e \<Rightarrow> Inl e
      | Inr output' \<Rightarrow> Inr (output', tr @ [ThemeCall n theme]))"
| "mutableCompileSxProperty theme selectors control (output, tr) propName (Lit (PNum n)) =
     (case set_prop output propName (CPrim (PNum n)) of
        Inl e \<Rightarrow> Inl e
      | Inr output' \<Rightarrow> Inr (output', tr))"
| "mutableCompileSxProperty theme selectors control (output, tr) propName (Lit (PStr s)) =
     (case set_prop output propName (CPrim (PStr s)) of
        Inl e \<Rightarrow> Inl e
      | Inr output' \<Rightarrow> Inr (output', tr))"
| "mutableCompileSxProperty theme selectors control (output, tr) propName (Obj kvs) =
     (if isPlainObject (Obj kvs)
      then compileSelectorNames theme selectors control (output, tr) propName kvs
      else Inr (output, tr))"
| "mutableCompileSxProperty theme selectors control (output, tr) propName x =
     Inr (output, tr)"
| "compileSelectorNames theme selectors control (output, tr) propName [] = Inr (output, tr)"
| "compileSelectorNames theme selectors control (output, tr) propName ((selectorName, x) # rest) =
     (if selectorName \<noteq> ''default'' then
        (case resolve_selector theme selectors control selectorName of
           Inl e \<Rightarrow> Inl e
         | Inr None \<Rightarrow> compileSelectorNames theme selectors control (output, tr) propName rest
         | Inr (Some selector) \<Rightarrow>
             if selector = [] then
               compileSelectorNames theme selectors control (output, tr) propName rest
             else
               (case ensure_level output selector of
                  Inl e \<Rightarrow> Inl e
                | Inr output1 \<Rightarrow>
                    (case get_prop output1 selector of
                       Inl e \<Rightarrow> Inl e
                     | Inr subOutput \<Rightarrow>
                         (case mutableCompileSxProperty theme selectors control
                                 (subOutput, tr) propName x of
                            Inl e \<Rightarrow> Inl e
                          | Inr (subOutput', tr') \<Rightarrow>
                              compileSelectorNames theme selectors control
                                (put_back output1 selector subOutput', tr') propName rest))))
      else
        (case mutableCompileSxProperty theme selectors control (output, tr) propName x of
           Inl e \<Rightarrow> Inl e
         | Inr (output', tr') \<Rightarrow>
             compileSelectorNames theme selectors control (output', tr') propName rest))"

subsection \<open>Normalising and merging the \<open>sx\<close> option\<close>

text \<open>
  \<open>CastableToTruthyArrayOf\<close>: nothing, one specification, or an array whose entries are
  falsy, a specification, or an array of such entries one level down.
\<close>

datatype 'a entry = Falsy | Item 'a | Items "'a option list"

datatype 'a castable = Absent | Single 'a | Many "'a entry list"

text \<open>
  Modelled from the spec: \<open>ensureTruthyArray\<close> is imported from \<open>./ensureTruthyArray\<close>,
  which is not among the sources. The spec's Array Normalizer returns the flat sequence of
  the specifications with every falsy entry removed, the order kept and exactly one level of
  nesting flattened; no input gives the empty sequence.
\<close>

fun flatten_entry :: "'a entry \<Rightarrow> 'a list" where
  "flatten_entry Falsy = []"
| "flatten_entry (Item a) = [a]"
| "flatten_entry (Items xs) = List.map_filter id xs"

fun ensureTruthyArray :: "'a castable \<Rightarrow> 'a list" where
  "ensureTruthyArray Absent = []"
| "ensureTruthyArray (Single a) = [a]"
| "ensureTruthyArray (Many es) = concat (map flatten_entry es)"

text \<open>
  \<open>Object.assign(target, source)\<close> on plain objects: every own property of the source is
  assigned to the target, in the order of the source's keys. An assignment to \<open>__proto__\<close>
  reaches the setter of \<open>Object.prototype\<close> unless the target has an own property of that
  name; \<open>is_proto\<close> tells the values that the setter takes for a prototype (an object or
  \<open>null\<close>) from those it ignores.
\<close>

definition assign_prop ::
  "('v \<Rightarrow> bool) \<Rightarrow> (string \<times> 'v) list \<Rightarrow> string \<times> 'v \<Rightarrow> error + (string \<times> 'v) list" where
  "assign_prop is_proto target kv =
     (if fst kv = ''__proto__'' \<and> map_of target ''__proto__'' = None then
        (if is_proto (snd kv) then Inl NotModelled else Inr target)
      else Inr (own_put (fst kv) (snd kv) target))"

fun object_assign ::
  "('v \<Rightarrow> bool) \<Rightarrow> (string \<times> 'v) list \<Rightarrow> (string \<times> 'v) list \<Rightarrow> error + (string \<times> 'v) list" where
  "object_assign is_proto target [] = Inr target"
| "object_assign is_proto target (kv # source) =
     (case assign_prop is_proto target kv of
        Inl e \<Rightarrow> Inl e
      | Inr target' \<Rightarrow> object_assign is_proto target' source)"

fun sx_prototype :: "'tv sxval \<Rightarrow> bool" where
  "sx_prototype (Lit p) = (p = PNull)"
| "sx_prototype x = True"

text \<open>\<open>reduce((acc, x) => Object.assign(acc, x), {})\<close>\<close>

fun mergeLoop :: "'tv sxobject \<Rightarrow> 'tv sxobject list \<Rightarrow> error + 'tv sxobject" where
  "mergeLoop acc [] = Inr acc"
| "mergeLoop acc (x # xs) =
     (case object_assign sx_prototype acc x of
        Inl e \<Rightarrow> Inl e
      | Inr acc' \<Rightarrow> mergeLoop acc' xs)"

definition mergeSx :: "'tv sxobject castable \<Rightarrow> error + 'tv sxobject" where
  "mergeSx sx = mergeLoop [] (ensureTruthyArray sx)"

subsection \<open>The compile orchestrator\<close>

type_synonym 'tv sxmap = "'tv sxval \<Rightarrow> 'tv theme \<Rightarrow> 'tv sxobject"

type_synonym 'tv sxmaps = "(string \<times> 'tv sxmap) list"

record 'tv options =
  opt_control :: "control option"
  opt_maps :: "'tv sxmaps option"
  opt_selectors :: "'tv sxselectors option"
  opt_theme :: "'tv theme option"
  opt_sx :: "'tv sxobject castable"

text \<open>
  \<open>styleObject[key]\<close>: the own property; without one, the inherited member when the key
  names one, and \<open>undefined\<close> otherwise.
\<close>

definition read_prop :: "'tv sxobject \<Rightarrow> string \<Rightarrow> error + 'tv sxval" where
  "read_prop styleObject key =
     (case map_of styleObject key of
        Some v \<Rightarrow> Inr v
      | None \<Rightarrow> if inherited key then Inl NotModelled else Inr (Lit PUndefined))"

text \<open>The loop \<open>for (const key of mapKeys)\<close> of \<open>compileSx\<close>.\<close>

fun expandMaps ::
  "'tv sxmaps \<Rightarrow> 'tv theme \<Rightarrow> 'tv sxobject \<times> 'tv event list \<Rightarrow>
   error + 'tv sxobject \<times> 'tv event list" where
  "expandMaps [] mergedTheme (styleObject, tr) = Inr (styleObject, tr)"
| "expandMaps ((key, f) # rest) mergedTheme (styleObject, tr) =
     (case read_prop styleObject key of
        Inl e \<Rightarrow> Inl e
      | Inr mapValue \<Rightarrow>
          (case object_assign sx_prototype (AList.delete key styleObject)
                  (f mapValue mergedTheme) of
             Inl e \<Rightarrow> Inl e
           | Inr styleObject' \<Rightarrow>
               expandMaps rest mergedTheme
                 (styleObject', tr @ [MapCall key mapValue mergedTheme])))"

text \<open>The loop \<open>for (const propName of props)\<close> of \<open>compileSx\<close>.\<close>

fun compileProps ::
  "'tv theme \<Rightarrow> 'tv sxselectors \<Rightarrow> control option \<Rightarrow> 'tv sxobject \<Rightarrow>
   cssval \<times> 'tv event list \<Rightarrow> string list \<Rightarrow> error + cssval \<times> 'tv event list" where
  "compileProps mergedTheme selectors control styleObject (output, tr) [] = Inr (output, tr)"
| "compileProps mergedTheme selectors control styleObject (output, tr) (propName # props) =
     (case read_prop styleObject propName of
        Inl e \<Rightarrow> Inl e
      | Inr x \<Rightarrow>
          (case mutableCompileSxProperty mergedTheme selectors control (output, tr) propName x of
             Inl e \<Rightarrow> Inl e
           | Inr (output', tr') \<Rightarrow>
               compileProps mergedTheme selectors control styleObject (output', tr') props))"

text \<open>
  The first half of \<open>themedCSS\<close>, the closure inside \<open>compileSx\<close>: the merged
  specification after the maps have been applied to it, with the calls made so far.
\<close>

definition expandedSx ::
  "'tv options \<Rightarrow> 'tv theme \<Rightarrow> error + 'tv sxobject \<times> 'tv event list" where
  "expandedSx options mergedTheme =
     (case mergeSx (opt_sx options) of
        Inl e \<Rightarrow> Inl e
      | Inr styleObject \<Rightarrow>
          (case opt_maps options of
             Some maps \<Rightarrow> expandMaps maps mergedTheme (styleObject, [])
           | None \<Rightarrow> Inr (styleObject, [])))"

text \<open>
  \<open>themedCSS\<close>. The parameter \<open>selectors = {}\<close> of \<open>mutableCompileSxProperty\<close> defaults
  when \<open>options.selectors\<close> is \<open>undefined\<close>.
\<close>

definition themedCSS :: "'tv options \<Rightarrow> 'tv theme \<Rightarrow> error + cssval \<times> 'tv event list" where
  "themedCSS options theme =
     (let mergedTheme = theme ++ (case opt_theme options of Some t \<Rightarrow> t | None \<Rightarrow> Map.empty)
      in case expandedSx options mergedTheme of
           Inl e \<Rightarrow> Inl e
         | Inr (styleObject, tr) \<Rightarrow>
             compileProps mergedTheme
               (case opt_selectors options of Some s \<Rightarrow> s | None \<Rightarrow> [])
               (opt_control options) styleObject (CObj [], tr) (map fst styleObject))"

definition compileSx :: "'tv options \<Rightarrow> error + cssval \<times> 'tv event list" where
  "compileSx options =
     themedCSS options (case opt_theme options of Some t \<Rightarrow> t | None \<Rightarrow> Map.empty)"

text \<open>
  \<open>useStyle\<close>, the hook that \<open>createUseSx(selectors)\<close> returns. The two
  \<open>useContext\<close> reads are the parameters \<open>ctxControl\<close> and \<open>ctxTheme\<close>.
\<close>

definition orElse :: "'a option \<Rightarrow> 'a option \<Rightarrow> 'a option" where
  "orElse a b = (case a of Some x \<Rightarrow> Some x | None \<Rightarrow> b)"

definition useStyle ::
  "'tv sxselectors \<Rightarrow> control option \<Rightarrow> 'tv theme option \<Rightarrow> 'tv options \<Rightarrow>
   error + cssval \<times> 'tv event list" where
  "useStyle selectors ctxControl ctxTheme props =
     compileSx
       \<lparr> opt_control = orElse (opt_control props) ctxControl,
         opt_maps = opt_maps props,
         opt_selectors = Some (case opt_selectors props of Some s \<Rightarrow> s | None \<Rightarrow> selectors),
         opt_theme = orElse (opt_theme props) ctxTheme,
         opt_sx = Many (map Item (ensureTruthyArray (opt_sx props))) \<rparr>"

definition useSx ::
  "control option \<Rightarrow> 'tv theme option \<Rightarrow> 'tv options \<Rightarrow> error + cssval \<times> 'tv event list" where
  "useSx = useStyle defaultSelectors"

subsection \<open>Vocabulary of the properties\<close>

text \<open>A literal of the data model: a string or a number.\<close>

fun is_literal :: "prim \<Rightarrow> bool" where
  "is_literal (PStr s) = True"
| "is_literal (PNum n) = True"
| "is_literal p = False"


text \<open>The keys of the map functions a trace calls, in order.\<close>

fun map_call_keys :: "'tv event list \<Rightarrow> string list" where
  "map_call_keys [] = []"
| "map_call_keys (MapCall k v th # tr) = k # map_call_keys tr"
| "map_call_keys (ThemeCall n th # tr) = map_call_keys tr"

text \<open>The themes that the function named \<open>n\<close> is called with in a trace, call by call.\<close>

fun theme_calls :: "string \<Rightarrow> 'tv event list \<Rightarrow> 'tv theme list" where
  "theme_calls n [] = []"
| "theme_calls n (ThemeCall m th # tr) =
     (if m = n then th # theme_calls n tr else theme_calls n tr)"
| "theme_calls n (MapCall k v th # tr) = theme_calls n tr"



text \<open>
  What stands at a key of a level stays of its kind: a primitive stays the primitive it is,
  an object stays an object.
\<close>

fun same_kind :: "cssval \<Rightarrow> cssval \<Rightarrow> bool" where
  "same_kind (CPrim p) v = (v = CPrim p)"
| "same_kind (CObj kvs) v = (case v of CObj kvs' \<Rightarrow> True | CPrim p \<Rightarrow> False)"

definition kept :: "string \<Rightarrow> cssval \<Rightarrow> cssval \<Rightarrow> bool" where
  "kept P out out' =
     (same_kind out out'
      \<and> (\<forall>k v. k \<noteq> P \<longrightarrow> get_prop out k = Inr v \<longrightarrow> truthy v \<longrightarrow>
            (\<exists>v'. get_prop out' k = Inr v' \<and> same_kind v v')))"




text \<open>A boundary descriptor as \<open>control(Component)\<close> builds it, with the \<open>hover\<close> flag set.\<close>

definition button_control :: "bool option \<Rightarrow> control" where
  "button_control flag =
     \<lparr> select = (\<lambda>selectorType. ''.btn'' @ selectorType), active = None, checked = None,
       disabled = None, focus = None, hover = flag \<rparr>"

section \<open>Part II: the compiler of \<open>src/control.tsx\<close> over a store\<close>

text \<open>
  Part I passes values, so no input can change there. Whether the compiler writes into
  an object of its caller depends on which objects are shared, and for that the objects
  live in a store here. An address is an index into the list of cells, and a new object is
  appended at the end. A cell holds what \<open>typeof\<close> and \<open>isPlainObject\<close> tell about the
  object, and its own enumerable properties in the order of \<open>Object.keys\<close>. A function
  is an object as well: the compiler may be handed one as a level to write into. The
  built-in objects of the realm have no cells: as in Part I, a run that reaches one is cut
  off with \<open>NotModelled\<close>.
\<close>

type_synonym addr = nat

datatype val = VPrim prim | VRef addr

datatype kind = Plain | Function | Array

datatype cell = Cell (kind_of: kind) (props_of: "(string \<times> val) list")

type_synonym heap = "cell list"

text \<open>
  A call ends normally or throws, and leaves a store either way. \<open>RangeError\<close> is thrown
  by a call stack that is used up: the recursion of the property compiler follows the
  caller's objects, which may be nested without end through a cycle, so the model carries
  the depth that is left.
\<close>

datatype 'a outcome = Ok 'a heap | Throw error heap


fun truthy_val :: "val \<Rightarrow> bool" where
  "truthy_val (VPrim p) = truthy_prim p"
| "truthy_val (VRef a) = True"

definition own_props :: "heap \<Rightarrow> addr \<Rightarrow> (string \<times> val) list" where
  "own_props h a = (if a < length h then props_of (h ! a) else [])"

fun kind_val :: "heap \<Rightarrow> val \<Rightarrow> kind option" where
  "kind_val h (VRef a) = (if a < length h then Some (kind_of (h ! a)) else None)"
| "kind_val h (VPrim p) = None"

text \<open>
  \<open>value[key]\<close> as the compiler reads it. An own enumerable property answers the read.
  Without one, a plain object answers \<open>undefined\<close> unless the key names a member it
  inherits; what a function, an array or a primitive answers is decided by properties that
  the cells do not list (the characters and the \<open>length\<close> of a string apart).
\<close>

fun get_h :: "heap \<Rightarrow> val \<Rightarrow> string \<Rightarrow> error + val" where
  "get_h h (VRef a) k =
     (case map_of (own_props h a) k of
        Some v \<Rightarrow> Inr v
      | None \<Rightarrow>
          if kind_val h (VRef a) = Some Plain \<and> \<not> inherited k then Inr (VPrim PUndefined)
          else Inl NotModelled)"
| "get_h h (VPrim (PStr s)) k =
     (if k = ''length'' then Inr (VPrim (PNum (int (length s))))
      else case canonical_index k of
        Some i \<Rightarrow> if i < length s then Inr (VPrim (PStr [s ! i])) else Inl NotModelled
      | None \<Rightarrow> Inl NotModelled)"
| "get_h h (VPrim p) k = Inl NotModelled"

text \<open>
  \<open>object.key\<close> as the caller's own functions read it in the examples, and as the
  default selectors read the flags of a boundary descriptor: the own property, and
  \<open>undefined\<close> when there is none.
\<close>

fun field :: "heap \<Rightarrow> val \<Rightarrow> string \<Rightarrow> val" where
  "field h (VRef a) k =
     (case map_of (own_props h a) k of Some v \<Rightarrow> v | None \<Rightarrow> VPrim PUndefined)"
| "field h (VPrim p) k = VPrim PUndefined"

definition put_props :: "heap \<Rightarrow> addr \<Rightarrow> (string \<times> val) list \<Rightarrow> heap" where
  "put_props h a ps = h[a := Cell (kind_of (h ! a)) ps]"

text \<open>
  \<open>value[key] = v\<close>. An own property is overwritten. A new property is added to a plain
  object, except under the key \<open>__proto__\<close>, which reaches the setter of
  \<open>Object.prototype\<close> (see Part I). Whether a function or an array takes a new property
  is decided by properties that the cells do not list. On a primitive the assignment throws.
\<close>

fun val_prototype :: "val \<Rightarrow> bool" where
  "val_prototype (VRef a) = True"
| "val_prototype (VPrim p) = (p = PNull)"

fun set_h :: "heap \<Rightarrow> val \<Rightarrow> string \<Rightarrow> val \<Rightarrow> unit outcome" where
  "set_h h (VRef a) k v =
     (if map_of (own_props h a) k = None \<and> kind_val h (VRef a) \<noteq> Some Plain then
        Throw NotModelled h
      else if map_of (own_props h a) k = None \<and> k = ''__proto__'' then
        (if val_prototype v then Throw NotModelled h else Ok () h)
      else Ok () (put_props h a (own_put k v (own_props h a))))"
| "set_h h (VPrim p) k v =
     (if k = ''__proto__'' \<and> p \<noteq> PUndefined \<and> p \<noteq> PNull then Ok () h
      else Throw TypeError h)"

definition new_object :: "heap \<Rightarrow> heap \<times> val" where
  "new_object h = (h @ [Cell Plain []], VRef (length h))"

text \<open>
  The caller's functions. A theme function is the function object at an address: the
  table gives its body, which reads the store and the theme it is called with and returns
  a value, possibly a reference to an object it finds. A body writes nothing and creates
  no object. Selector resolvers and map functions are the entries of their tables; a map
  function returns the properties of the object it builds. The \<open>select\<close> method of a
  boundary descriptor is given by the address of the descriptor.
\<close>

type_synonym themefuns = "addr \<Rightarrow> heap \<Rightarrow> val \<Rightarrow> val"

type_synonym selector_h = "heap \<Rightarrow> val \<Rightarrow> addr option \<Rightarrow> string option"

type_synonym selectors_h = "(string \<times> selector_h) list"

type_synonym selectfuns = "addr \<Rightarrow> string \<Rightarrow> string"

fun createDefaultSelector_h :: "selectfuns \<Rightarrow> control_key \<Rightarrow> selector_h" where
  "createDefaultSelector_h sf type h theme None = Some (''&:'' @ key_name type)"
| "createDefaultSelector_h sf type h theme (Some control) =
     (if field h (VRef control) (key_name type) \<noteq> VPrim PUndefined then
        (if truthy_val (field h (VRef control) (key_name type)) then Some ''&'' else None)
      else Some (sf control ('':'' @ key_name type) @ '' &''))"

definition defaultSelectors_h :: "selectfuns \<Rightarrow> selectors_h" where
  "defaultSelectors_h sf =
     [(''active'', createDefaultSelector_h sf Active),
      (''checked'', createDefaultSelector_h sf Checked),
      (''disabled'', createDefaultSelector_h sf Disabled),
      (''focus'', createDefaultSelector_h sf Focus),
      (''focusWithin'', createDefaultSelector_h sf Focus),
      (''hover'', createDefaultSelector_h sf Hover)]"

definition resolve_selector_h ::
  "heap \<Rightarrow> val \<Rightarrow> selectors_h \<Rightarrow> addr option \<Rightarrow> string \<Rightarrow> error + string option" where
  "resolve_selector_h h theme selectors control selectorName =
     (case map_of selectors selectorName of
        Some resolver \<Rightarrow> Inr (resolver h theme control)
      | None \<Rightarrow> if inherited selectorName then Inl NotModelled else Inr (Some selectorName))"

text \<open>
  \<open>if (!output[selector]) { output[selector] = {} }\<close>
\<close>

definition ensure_level_h :: "heap \<Rightarrow> val \<Rightarrow> string \<Rightarrow> unit outcome" where
  "ensure_level_h h output selector =
     (case get_h h output selector of
        Inl e \<Rightarrow> Throw e h
      | Inr v \<Rightarrow>
          if \<not> truthy_val v
          then set_h (fst (new_object h)) output selector (snd (new_object h))
          else Ok () h)"

fun is_literal_val :: "val \<Rightarrow> bool" where
  "is_literal_val (VPrim (PNum n)) = True"
| "is_literal_val (VPrim (PStr s)) = True"
| "is_literal_val v = False"

text \<open>
  Modelled from the spec: \<open>isPlainObject\<close>, whose file is not among the sources, holds
  in the store of the references to cells of the kind \<open>Plain\<close> and of nothing else (the
  spec's property compiler ignores \<open>null\<close>, \<open>undefined\<close> and arrays).
\<close>

definition isPlainObject_h :: "heap \<Rightarrow> val \<Rightarrow> bool" where
  "isPlainObject_h h x = (kind_val h x = Some Plain)"

text \<open>
  \<open>mutableCompileSxProperty\<close> and its loop over \<open>Object.keys(x)\<close>. The keys are taken
  once, before the loop; \<open>x[selectorName]\<close> is read in the store as it is at that turn
  of the loop. A call with no depth left throws \<open>RangeError\<close>.
\<close>

fun mutableCompileSxProperty_h ::
  "themefuns \<Rightarrow> nat \<Rightarrow> val \<Rightarrow> selectors_h \<Rightarrow> addr option \<Rightarrow> heap \<Rightarrow> val \<Rightarrow> string \<Rightarrow> val \<Rightarrow>
   unit outcome"
and compileSelectorNames_h ::
  "themefuns \<Rightarrow> nat \<Rightarrow> val \<Rightarrow> selectors_h \<Rightarrow> addr option \<Rightarrow> heap \<Rightarrow> val \<Rightarrow> string \<Rightarrow> val \<Rightarrow>
   string list \<Rightarrow> unit outcome"
where
  "mutableCompileSxProperty_h tf 0 theme selectors control h output propName x =
     Throw RangeError h"
| "mutableCompileSxProperty_h tf (Suc depth) theme selectors control h output propName x =
     (if kind_val h x = Some Function then
        (case x of VRef f \<Rightarrow> set_h h output propName (tf f h theme)
         | VPrim p \<Rightarrow> Ok () h)
      else if is_literal_val x then set_h h output propName x
      else if isPlainObject_h h x then
        (case x of
           VRef a \<Rightarrow>
             compileSelectorNames_h tf depth theme selectors control h output propName x
               (map fst (own_props h a))
         | VPrim p \<Rightarrow> Ok () h)
      else Ok () h)"
| "compileSelectorNames_h tf depth theme selectors control h output propName x [] = Ok () h"
| "compileSelectorNames_h tf depth theme selectors control h output propName x
     (selectorName # rest) =
     (if selectorName \<noteq> ''default'' then
        (case resolve_selector_h h theme selectors control selectorName of
           Inl e \<Rightarrow> Throw e h
         | Inr None \<Rightarrow>
             compileSelectorNames_h tf depth theme selectors control h output propName x rest
         | Inr (Some selector) \<Rightarrow>
             if selector = [] then
               compileSelectorNames_h tf depth theme selectors control h output propName x rest
             else
               (case ensure_level_h h output selector of
                  Throw e h1 \<Rightarrow> Throw e h1
                | Ok u h1 \<Rightarrow>
                    (case get_h h1 output selector of
                       Inl e \<Rightarrow> Throw e h1
                     | Inr subOutput \<Rightarrow>
                         (case get_h h1 x selectorName of
                            Inl e \<Rightarrow> Throw e h1
                          | Inr y \<Rightarrow>
                              (case mutableCompileSxProperty_h tf depth theme selectors control
                                      h1 subOutput propName y of
                                 Throw e h2 \<Rightarrow> Throw e h2
                               | Ok u h2 \<Rightarrow>
                                   compileSelectorNames_h tf depth theme selectors control h2
                                     output propName x rest)))))
      else
        (case get_h h x selectorName of
           Inl e \<Rightarrow> Throw e h
         | Inr y \<Rightarrow>
             (case mutableCompileSxProperty_h tf depth theme selectors control h output
                     propName y of
                Throw e h2 \<Rightarrow> Throw e h2
              | Ok u h2 \<Rightarrow>
                  compileSelectorNames_h tf depth theme selectors control h2 output propName x
                    rest)))"

text \<open>
  \<open>mergeSx\<close>: \<open>Object.assign\<close> of every specification into a new object. The \<open>sx\<close>
  option holds the addresses of the specifications (\<open>ensureTruthyArray\<close> as in Part I).
\<close>

definition assign_h :: "heap \<Rightarrow> addr \<Rightarrow> (string \<times> val) list \<Rightarrow> unit outcome" where
  "assign_h h target source =
     (case object_assign val_prototype (own_props h target) source of
        Inl e \<Rightarrow> Throw e h
      | Inr ps \<Rightarrow> Ok () (put_props h target ps))"

fun mergeLoop_h :: "heap \<Rightarrow> addr \<Rightarrow> addr list \<Rightarrow> unit outcome" where
  "mergeLoop_h h acc [] = Ok () h"
| "mergeLoop_h h acc (x # xs) =
     (case assign_h h acc (own_props h x) of
        Throw e h' \<Rightarrow> Throw e h'
      | Ok u h' \<Rightarrow> mergeLoop_h h' acc xs)"

definition mergeSx_h :: "heap \<Rightarrow> addr castable \<Rightarrow> addr outcome" where
  "mergeSx_h h sx =
     (case mergeLoop_h (h @ [Cell Plain []]) (length h) (ensureTruthyArray sx) of
        Throw e h' \<Rightarrow> Throw e h'
      | Ok u h' \<Rightarrow> Ok (length h) h')"

text \<open>
  \<open>compileSx\<close>: the merged specification, the merged theme and the output are three new
  objects, created in this order. The spread \<open>{ ...theme, ...options.theme }\<close> defines
  the properties it copies (it calls no setter), so every key becomes an own property.
\<close>

type_synonym sxmap_h = "heap \<Rightarrow> val \<Rightarrow> val \<Rightarrow> (string \<times> val) list"

type_synonym sxmaps_h = "(string \<times> sxmap_h) list"

record options_h =
  opth_control :: "addr option"
  opth_maps :: "sxmaps_h option"
  opth_selectors :: "selectors_h option"
  opth_theme :: "addr option"
  opth_sx :: "addr castable"

fun expandMaps_h :: "sxmaps_h \<Rightarrow> val \<Rightarrow> heap \<Rightarrow> addr \<Rightarrow> unit outcome" where
  "expandMaps_h [] mergedTheme h styleObject = Ok () h"
| "expandMaps_h ((key, f) # rest) mergedTheme h styleObject =
     (case get_h h (VRef styleObject) key of
        Inl e \<Rightarrow> Throw e h
      | Inr mapValue \<Rightarrow>
          (case assign_h (put_props h styleObject (AList.delete key (own_props h styleObject)))
                  styleObject
                  (f (put_props h styleObject (AList.delete key (own_props h styleObject)))
                     mapValue mergedTheme) of
             Throw e h2 \<Rightarrow> Throw e h2
           | Ok u h2 \<Rightarrow> expandMaps_h rest mergedTheme h2 styleObject))"

fun compileProps_h ::
  "themefuns \<Rightarrow> nat \<Rightarrow> val \<Rightarrow> selectors_h \<Rightarrow> addr option \<Rightarrow> addr \<Rightarrow> heap \<Rightarrow> val \<Rightarrow>
   string list \<Rightarrow> unit outcome" where
  "compileProps_h tf depth mergedTheme selectors control styleObject h output [] = Ok () h"
| "compileProps_h tf depth mergedTheme selectors control styleObject h output (propName # props) =
     (case get_h h (VRef styleObject) propName of
        Inl e \<Rightarrow> Throw e h
      | Inr x \<Rightarrow>
          (case mutableCompileSxProperty_h tf depth mergedTheme selectors control h output
                  propName x of
             Throw e h' \<Rightarrow> Throw e h'
           | Ok u h' \<Rightarrow>
               compileProps_h tf depth mergedTheme selectors control styleObject h' output
                 props))"

definition define_props :: "(string \<times> 'v) list \<Rightarrow> (string \<times> 'v) list \<Rightarrow> (string \<times> 'v) list" where
  "define_props target source = foldl (\<lambda>acc kv. own_put (fst kv) (snd kv) acc) target source"

definition spread_h :: "heap \<Rightarrow> addr option \<Rightarrow> addr option \<Rightarrow> heap \<times> addr" where
  "spread_h h a b =
     (let h1 = h @ [Cell Plain []];
          h2 = (case a of
                  Some x \<Rightarrow> put_props h1 (length h)
                              (define_props (own_props h1 (length h)) (own_props h1 x))
                | None \<Rightarrow> h1);
          h3 = (case b of
                  Some x \<Rightarrow> put_props h2 (length h)
                              (define_props (own_props h2 (length h)) (own_props h2 x))
                | None \<Rightarrow> h2)
      in (h3, length h))"

definition themedCSS_h ::
  "themefuns \<Rightarrow> nat \<Rightarrow> options_h \<Rightarrow> heap \<Rightarrow> addr option \<Rightarrow> val outcome" where
  "themedCSS_h tf depth options h theme =
     (case mergeSx_h h (opth_sx options) of
        Throw e h1 \<Rightarrow> Throw e h1
      | Ok styleObject h1 \<Rightarrow>
          (let (h2, mergedTheme) = spread_h h1 theme (opth_theme options)
           in case (case opth_maps options of
                      Some maps \<Rightarrow> expandMaps_h maps (VRef mergedTheme) h2 styleObject
                    | None \<Rightarrow> Ok () h2) of
                Throw e h3 \<Rightarrow> Throw e h3
              | Ok u h3 \<Rightarrow>
                  (let props = map fst (own_props h3 styleObject);
                       (h4, output) = new_object h3
                   in case compileProps_h tf depth (VRef mergedTheme)
                             (case opth_selectors options of Some s \<Rightarrow> s | None \<Rightarrow> [])
                             (opth_control options) styleObject h4 output props of
                        Throw e h5 \<Rightarrow> Throw e h5
                      | Ok u h5 \<Rightarrow> Ok output h5)))"

definition compileSx_h :: "themefuns \<Rightarrow> nat \<Rightarrow> options_h \<Rightarrow> heap \<Rightarrow> val outcome" where
  "compileSx_h tf depth options h = themedCSS_h tf depth options h (opth_theme options)"

subsection \<open>Vocabulary of the properties of the store\<close>



















text \<open>
  The output as a tree, read from the store down to depth \<open>k\<close>, and the result of a call
  as such a tree or the error thrown.
\<close>

fun css_of :: "nat \<Rightarrow> heap \<Rightarrow> val \<Rightarrow> cssval" where
  "css_of 0 h v = CPrim PUndefined"
| "css_of (Suc k) h (VPrim p) = CPrim p"
| "css_of (Suc k) h (VRef a) = CObj (map (\<lambda>kv. (fst kv, css_of k h (snd kv))) (own_props h a))"

fun result_css :: "nat \<Rightarrow> val outcome \<Rightarrow> error + cssval" where
  "result_css k (Ok out h) = Inr (css_of k h out)"
| "result_css k (Throw e h) = Inl e"















text \<open>
  \<open>theme_color\<close> is \<open>(theme) => theme.color\<close> for a theme whose \<open>color\<close> is a primitive,
  \<open>fill_map\<close> is \<open>(v) => ({ fill: v })\<close>, and \<open>heap_ok\<close> holds the theme
  \<open>{ color: 'blue' }\<close> and the specification
  \<open>{ tone: { default: (theme) => theme.color, hover: 'red' } }\<close>.
\<close>

fun prim_part :: "val \<Rightarrow> prim" where
  "prim_part (VPrim p) = p"
| "prim_part (VRef a) = PUndefined"

definition theme_color :: themefuns where
  "theme_color f h theme = VPrim (prim_part (field h theme ''color''))"

definition fill_map :: sxmap_h where
  "fill_map h v theme = [(''fill'', v)]"

definition heap_ok :: heap where
  "heap_ok =
     [Cell Plain [(''color'', VPrim (PStr ''blue''))],
      Cell Function [],
      Cell Plain [(''default'', VRef 1), (''hover'', VPrim (PStr ''red''))],
      Cell Plain [(''tone'', VRef 2)]]"

definition options_ok :: options_h where
  "options_ok =
     \<lparr> opth_control = None, opth_maps = Some [(''tone'', fill_map)],
       opth_selectors = Some (defaultSelectors_h (\<lambda>c s. s)),
       opth_theme = Some 0, opth_sx = Many [Item 3, Falsy] \<rparr>"




section \<open>Properties of the compiler over values\<close>

lemmas compile_defs = useSx_def useStyle_def compileSx_def themedCSS_def expandedSx_def
  mergeSx_def assign_prop_def orElse_def read_prop_def resolve_selector_def defaultSelectors_def
  ensure_level_def own_put_def inherited_def array_index_def canonical_index_def digit_val_def
  Let_def

subsection \<open>Own properties\<close>

lemma own_put_Nil: "own_put k v [] = [(k, v)]"
  by (simp add: own_put_def split: option.splits)

lemma map_of_insert_index:
  "map_of kvs (fst kv) = None \<Longrightarrow>
   map_of (insert_index i kv kvs) = (map_of kvs)(fst kv \<mapsto> snd kv)"
  by (induction kvs) (auto simp: fun_eq_iff split: option.splits)

lemma map_of_own_put: "map_of (own_put k v kvs) = (map_of kvs)(k \<mapsto> v)"
proof (cases "map_of kvs k")
  case None
  then show ?thesis
    using map_of_insert_index [of kvs "(k, v)"]
    by (auto simp: own_put_def fun_eq_iff map_add_def split: option.splits)
next
  case (Some old)
  then show ?thesis by (simp add: own_put_def update_conv')
qed



lemma keys_own_put: "fst ` set (own_put k v kvs) = insert k (fst ` set kvs)"
proof -
  have "dom (map_of (own_put k v kvs)) = insert k (dom (map_of kvs))"
    by (simp add: map_of_own_put)
  then show ?thesis by (simp add: dom_map_of_conv_image_fst)
qed



subsection \<open>Selectors\<close>

text \<open>
  C1 (as amended). For every property name \<open>P\<close> other than \<open>&:hover\<close> and \<open>__proto__\<close>,
  compiling \<open>{ P: { default: X, hover: Y } }\<close> with literals \<open>X\<close> and \<open>Y\<close>, the default
  selectors and no boundary descriptor gives exactly \<open>P: X\<close> at the top level and
  \<open>"&:hover": { P: Y }\<close>: the \<open>default\<close> key writes into the level it stands in. With
  the two keys of the selector map in the other order the output holds the same two
  entries.
\<close>

theorem default_selector_law:
  assumes "is_literal X" and "is_literal Y" and "P \<noteq> ''&:hover''" and "P \<noteq> ''__proto__''"
  shows "useSx None ctxTheme
           \<lparr> opt_control = None, opt_maps = None, opt_selectors = None, opt_theme = th,
             opt_sx = Single [(P, Obj [(''default'', Lit X), (''hover'', Lit Y)])] \<rparr>
         = Inr (CObj [(P, CPrim X), (''&:hover'', CObj [(P, CPrim Y)])], [])
       \<and> (\<exists>out. useSx None ctxTheme
           \<lparr> opt_control = None, opt_maps = None, opt_selectors = None, opt_theme = th,
             opt_sx = Single [(P, Obj [(''hover'', Lit Y), (''default'', Lit X)])] \<rparr>
           = Inr (CObj out, [])
           \<and> map_of out P = Some (CPrim X)
           \<and> map_of out ''&:hover'' = Some (CObj [(P, CPrim Y)])
           \<and> fst ` set out = {P, ''&:hover''})"
proof -
  have put: "own_put P v [] = [(P, v)]" for v :: cssval by (rule own_put_Nil)
  have putx: "own_put P v [] = [(P, v)]" for v :: "'a sxval" by (rule own_put_Nil)
  have hov: "array_index ''&:hover'' = None"
    by (simp add: array_index_def canonical_index_def digit_val_def)
  have first: "useSx None ctxTheme
           \<lparr> opt_control = None, opt_maps = None, opt_selectors = None, opt_theme = th,
             opt_sx = Single [(P, Obj [(''default'', Lit X), (''hover'', Lit Y)])] \<rparr>
         = Inr (CObj [(P, CPrim X), (''&:hover'', CObj [(P, CPrim Y)])], [])"
    using assms
    by (cases X; cases Y)
       (simp_all add: useSx_def useStyle_def compileSx_def themedCSS_def expandedSx_def
          mergeSx_def assign_prop_def orElse_def read_prop_def resolve_selector_def
          defaultSelectors_def ensure_level_def inherited_def put putx own_put_def [of "''&:hover''"] hov)
  have second: "useSx None ctxTheme
           \<lparr> opt_control = None, opt_maps = None, opt_selectors = None, opt_theme = th,
             opt_sx = Single [(P, Obj [(''hover'', Lit Y), (''default'', Lit X)])] \<rparr>
           = Inr (CObj (own_put P (CPrim X) [(''&:hover'', CObj [(P, CPrim Y)])]), [])"
    using assms
    by (cases X; cases Y)
       (simp_all add: useSx_def useStyle_def compileSx_def themedCSS_def expandedSx_def
          mergeSx_def assign_prop_def orElse_def read_prop_def resolve_selector_def
          defaultSelectors_def ensure_level_def inherited_def put putx own_put_def [of "''&:hover''"] hov)
  show ?thesis
    using first second assms(3)
    by (auto simp: map_of_own_put keys_own_put)
qed

theorem default_selector_law_witness:
  "useSx None None
     \<lparr> opt_control = None, opt_maps = None, opt_selectors = None,
       opt_theme = (None :: unit theme option),
       opt_sx = Single [(''borderColor'', Obj [(''default'', Lit (PStr ''black'')),
                                               (''hover'', Lit (PStr ''red''))])] \<rparr>
   = Inr (CObj [(''borderColor'', CPrim (PStr ''black'')),
                (''&:hover'', CObj [(''borderColor'', CPrim (PStr ''red''))])], [])"
  using default_selector_law [of "PStr ''black''" "PStr ''red''" "''borderColor''" None
      "None :: unit theme option"]
  by simp

text \<open>
  C1, as stated, fails for the property name \<open>&:hover\<close>: the \<open>default\<close> branch writes the
  string \<open>black\<close> at the key \<open>&:hover\<close>, the \<open>hover\<close> branch then takes that string for its
  sub-level, and the assignment to a property of a string throws.
\<close>

theorem default_selector_law_counterexample:
  "useSx None None
     \<lparr> opt_control = None, opt_maps = None, opt_selectors = None,
       opt_theme = (None :: unit theme option),
       opt_sx = Single [(''&:hover'', Obj [(''default'', Lit (PStr ''black'')),
                                           (''hover'', Lit (PStr ''red''))])] \<rparr>
   = Inl TypeError"
  by (simp add: compile_defs)

text \<open>
  C2 (as amended). For each of the states \<open>active\<close>, \<open>checked\<close>, \<open>disabled\<close>, \<open>focus\<close> and
  \<open>hover\<close>, the built-in resolver registered under the state's name decides three ways:
  with no boundary descriptor it returns \<open>&:state\<close>; with a descriptor whose flag for the
  state is set it returns \<open>&\<close> for \<open>true\<close> and \<open>null\<close> for \<open>false\<close>; with a descriptor
  without the flag it returns \<open>select(":state")\<close> followed by \<open>" &"\<close>. The name
  \<open>focusWithin\<close> resolves exactly as \<open>focus\<close> does.
\<close>

theorem default_selector_three_way:
  assumes "k \<noteq> Select"
  shows "resolve_selector th defaultSelectors None (key_name k)
           = Inr (Some (''&:'' @ key_name k))
    \<and> (control_get c k = Some True \<longrightarrow>
          resolve_selector th defaultSelectors (Some c) (key_name k) = Inr (Some ''&''))
    \<and> (control_get c k = Some False \<longrightarrow>
          resolve_selector th defaultSelectors (Some c) (key_name k) = Inr None)
    \<and> (control_get c k = None \<longrightarrow>
          resolve_selector th defaultSelectors (Some c) (key_name k)
            = Inr (Some (select c ('':'' @ key_name k) @ '' &'')))
    \<and> resolve_selector th defaultSelectors ctl ''focusWithin''
          = resolve_selector th defaultSelectors ctl ''focus''"
  using assms by (cases k) (simp_all add: resolve_selector_def defaultSelectors_def)

theorem default_selector_three_way_witness:
  "resolve_selector (Map.empty :: unit theme) defaultSelectors None ''hover''
     = Inr (Some ''&:hover'')
   \<and> resolve_selector (Map.empty :: unit theme) defaultSelectors
         (Some (button_control (Some True))) ''hover'' = Inr (Some ''&'')
   \<and> resolve_selector (Map.empty :: unit theme) defaultSelectors
         (Some (button_control (Some False))) ''hover'' = Inr None
   \<and> resolve_selector (Map.empty :: unit theme) defaultSelectors
         (Some (button_control None)) ''hover'' = Inr (Some ''.btn:hover &'')"
  using default_selector_three_way [of Hover "Map.empty :: unit theme" "button_control (Some True)"]
    default_selector_three_way [of Hover "Map.empty :: unit theme" "button_control (Some False)"]
    default_selector_three_way [of Hover "Map.empty :: unit theme" "button_control None"]
  by (simp add: button_control_def)

text \<open>
  C2, as stated, fails for \<open>focusWithin\<close>: with no boundary descriptor its resolver returns
  \<open>&:focus\<close>, not \<open>&:focusWithin\<close>.
\<close>

theorem focusWithin_counterexample:
  "resolve_selector (Map.empty :: unit theme) defaultSelectors None ''focusWithin''
     = Inr (Some ''&:focus'')
   \<and> resolve_selector (Map.empty :: unit theme) defaultSelectors None ''focusWithin''
     \<noteq> Inr (Some ''&:focusWithin'')"
  by (simp add: resolve_selector_def defaultSelectors_def)

subsection \<open>Skipped branches\<close>

lemma null_skip_names:
  assumes "selectorName \<noteq> ''default''"
    and "resolve_selector th sels ctl selectorName = Inr None"
  shows "compileSelectorNames th sels ctl (out, tr) P (pre @ (selectorName, x) # post)
         = compileSelectorNames th sels ctl (out, tr) P (pre @ post)"
  using assms
proof (induction pre arbitrary: out tr)
  case Nil
  then show ?case by simp
next
  case (Cons a pre)
  obtain s y where a: "a = (s, y)" by (cases a)
  show ?case using Cons
    by (simp add: a split: option.splits sum.splits prod.splits)
qed

text \<open>
  C3. A branch of a selector map whose resolver returns \<open>null\<close> leaves no mark: compiling the
  selector map gives the same output level and the same trace of calls as compiling it
  with that branch removed, whatever stands under the branch. So no key is written for it,
  no empty sub-object is created, and no theme function under it is called.
\<close>

theorem null_skip_law:
  assumes "selectorName \<noteq> ''default''"
    and "resolve_selector th sels ctl selectorName = Inr None"
  shows "mutableCompileSxProperty th sels ctl (out, tr) P (Obj (pre @ (selectorName, x) # post))
         = mutableCompileSxProperty th sels ctl (out, tr) P (Obj (pre @ post))"
  using assms by (simp add: null_skip_names)

theorem null_skip_law_witness:
  "''off'' \<noteq> ''default''
   \<and> resolve_selector (Map.empty :: unit theme) [(''off'', \<lambda>th c. None)] None ''off'' = Inr None
   \<and> mutableCompileSxProperty (Map.empty :: unit theme) [(''off'', \<lambda>th c. None)] None
        (CObj [], []) ''color''
        (Obj [(''default'', Lit (PStr ''black'')), (''off'', Fun ''f'' (\<lambda>th. PStr ''red''))])
       = Inr (CObj [(''color'', CPrim (PStr ''black''))], [])"
  using null_skip_law [of "''off''" "Map.empty :: unit theme" "[(''off'', \<lambda>th c. None)]" None
      "CObj []" "[]" "''color''" "[(''default'', Lit (PStr ''black''))]"
      "Fun ''f'' (\<lambda>th. PStr ''red'')" "[]"]
  by (simp add: resolve_selector_def own_put_Nil)

subsection \<open>What a compile step keeps\<close>

lemma inherited_proto: "inherited ''__proto__''"
  by (simp add: inherited_def)

lemma same_kind_refl: "same_kind v v"
  by (cases v) simp_all

lemma same_kind_trans: "same_kind a b \<Longrightarrow> same_kind b c \<Longrightarrow> same_kind a c"
  by (cases a; cases b; cases c) simp_all

lemma same_kind_truthy: "same_kind v v' \<Longrightarrow> truthy v \<Longrightarrow> truthy v'"
  by (cases v; cases v') simp_all

lemma same_kind_prim: "same_kind (CPrim p) v \<Longrightarrow> v = CPrim p"
  by simp

lemma kept_refl: "kept P out out"
  by (auto simp: kept_def same_kind_refl)

lemma kept_trans:
  assumes "kept P a b" and "kept P b c"
  shows "kept P a c"
  unfolding kept_def
proof (intro conjI allI impI)
  show "same_kind a c" using assms by (auto simp: kept_def intro: same_kind_trans)
next
  fix k v
  assume k: "k \<noteq> P" and g: "get_prop a k = Inr v" and t: "truthy v"
  with assms(1) obtain v1 where g1: "get_prop b k = Inr v1" and s1: "same_kind v v1"
    by (auto simp: kept_def)
  from s1 t have "truthy v1" by (rule same_kind_truthy)
  with assms(2) k g1 obtain v2 where g2: "get_prop c k = Inr v2" and s2: "same_kind v1 v2"
    by (auto simp: kept_def)
  from s1 s2 have "same_kind v v2" by (rule same_kind_trans)
  with g2 show "\<exists>v'. get_prop c k = Inr v' \<and> same_kind v v'" by blast
qed

lemma set_prop_kept: "set_prop out P v = Inr out' \<Longrightarrow> kept P out out'"
  by (cases out)
     (auto simp: kept_def map_of_own_put same_kind_refl split: if_splits option.splits)

lemma ensure_level_kept:
  assumes "ensure_level out sel = Inr out1"
  shows "kept P out out1"
proof (cases "get_prop out sel")
  case (Inl e)
  with assms show ?thesis by (simp add: ensure_level_def)
next
  case (Inr v)
  show ?thesis
  proof (cases "truthy v")
    case True
    with assms Inr show ?thesis by (simp add: ensure_level_def kept_refl)
  next
    case False
    with assms Inr have s: "set_prop out sel (CObj []) = Inr out1"
      by (simp add: ensure_level_def)
    then have k: "kept sel out out1" by (rule set_prop_kept)
    show ?thesis
      unfolding kept_def
    proof (intro conjI allI impI)
      show "same_kind out out1" using k by (simp add: kept_def)
    next
      fix k' v'
      assume "k' \<noteq> P" and g: "get_prop out k' = Inr v'" and t: "truthy v'"
      from g t Inr False have "k' \<noteq> sel" by auto
      with k g t show "\<exists>v''. get_prop out1 k' = Inr v'' \<and> same_kind v' v''"
        by (simp add: kept_def)
    qed
  qed
qed

lemma ensure_level_same:
  assumes "ensure_level out sel = Inr out1" and "get_prop out sel = Inr v" and "truthy v"
  shows "out1 = out"
  using assms by (simp add: ensure_level_def)

lemma put_back_kept:
  assumes "get_prop out1 sel = Inr sub" and "same_kind sub sub'" and "truthy sub"
  shows "kept P out1 (put_back out1 sel sub')"
proof (cases out1)
  case (CPrim p)
  then show ?thesis by (simp add: kept_refl)
next
  case (CObj kvs)
  with assms(1,3) have own: "map_of kvs sel = Some sub"
    by (auto split: option.splits if_splits)
  show ?thesis
    unfolding kept_def CObj
    using own assms(2)
    by (auto simp: update_conv' same_kind_refl split: option.splits if_splits)
qed

lemma ensure_level_truthy:
  assumes "ensure_level out sel = Inr out1" and "get_prop out1 sel = Inr sub"
  shows "truthy sub"
proof (cases "get_prop out sel")
  case (Inl e)
  with assms show ?thesis by (simp add: ensure_level_def)
next
  case (Inr v)
  show ?thesis
  proof (cases "truthy v")
    case True
    with assms Inr show ?thesis by (simp add: ensure_level_def)
  next
    case False
    with assms Inr have s: "set_prop out sel (CObj []) = Inr out1"
      by (simp add: ensure_level_def)
    show ?thesis
    proof (cases out)
      case (CPrim p)
      with s Inr show ?thesis
        by (cases p)
           (auto simp: canonical_index_def digit_val_def split: if_splits option.splits)
    next
      case (CObj kvs)
      have "\<not> (sel = ''__proto__'' \<and> map_of kvs sel = None)"
        using Inr by (auto simp: CObj inherited_proto split: option.splits)
      with s have "out1 = CObj (own_put sel (CObj []) kvs)" by (auto simp: CObj)
      with assms(2) show ?thesis by (auto simp: map_of_own_put)
    qed
  qed
qed

lemma compile_kept:
  "mutableCompileSxProperty th sels ctl s P x = Inr s' \<Longrightarrow> kept P (fst s) (fst s')"
  "compileSelectorNames th sels ctl s P kvs = Inr s' \<Longrightarrow> kept P (fst s) (fst s')"
proof (induction th sels ctl s P x and th sels ctl s P kvs arbitrary: s' and s'
       rule: mutableCompileSxProperty_compileSelectorNames.induct)
  case (1 theme selectors control out0 tr propName n f)
  then show ?case by (auto split: sum.splits intro: set_prop_kept)
next
  case (2 theme selectors control out0 tr propName n)
  then show ?case by (auto split: sum.splits intro: set_prop_kept)
next
  case (3 theme selectors control out0 tr propName s)
  then show ?case by (auto split: sum.splits intro: set_prop_kept)
next
  case (4 theme selectors control out0 tr propName kvs)
  then show ?case by simp
next
  case (7 theme selectors control out0 tr propName selectorName x rest)
  note IH = "7.IH" and run = "7.prems"
  show ?case
  proof (cases "selectorName \<noteq> ''default''")
    case nd: True
    show ?thesis
    proof (cases "resolve_selector theme selectors control selectorName")
      case (Inl e)
      with run nd show ?thesis by simp
    next
      case (Inr b)
      show ?thesis
      proof (cases b)
        case None
        from run nd Inr None
        have "compileSelectorNames theme selectors control (out0, tr) propName rest = Inr s'"
          by simp
        from IH(1) [OF nd Inr None this] show ?thesis .
      next
        case (Some sel)
        show ?thesis
        proof (cases "sel = []")
          case True
          from run nd Inr Some True
          have "compileSelectorNames theme selectors control (out0, tr) propName rest = Inr s'"
            by simp
          from IH(2) [OF nd Inr Some True this] show ?thesis .
        next
          case ne: False
          from run nd Inr Some ne obtain out1 sub sub' tr1
            where e: "ensure_level out0 sel = Inr out1"
              and g: "get_prop out1 sel = Inr sub"
              and m: "mutableCompileSxProperty theme selectors control (sub, tr) propName x
                      = Inr (sub', tr1)"
              and r: "compileSelectorNames theme selectors control
                        (put_back out1 sel sub', tr1) propName rest = Inr s'"
            by (auto split: sum.splits)
          have k1: "kept propName out0 out1" using e by (rule ensure_level_kept)
          have "kept propName (fst (sub, tr)) (fst (sub', tr1))"
            using IH(3) [OF nd Inr Some ne e g m] .
          then have sk: "same_kind sub sub'" by (simp add: kept_def)
          have ts: "truthy sub" using e g by (rule ensure_level_truthy)
          have k2: "kept propName out1 (put_back out1 sel sub')"
            using g sk ts by (rule put_back_kept)
          have k3: "kept propName (fst (put_back out1 sel sub', tr1)) (fst s')"
            using IH(4) [OF nd Inr Some ne e g m refl r] .
          from k1 k2 k3 show ?thesis by (auto intro: kept_trans)
        qed
      qed
    qed
  next
    case d: False
    from run d obtain out1 tr1
      where m: "mutableCompileSxProperty theme selectors control (out0, tr) propName x
                = Inr (out1, tr1)"
        and r: "compileSelectorNames theme selectors control (out1, tr1) propName rest = Inr s'"
      by (auto split: sum.splits)
    have k1: "kept propName (fst (out0, tr)) (fst (out1, tr1))"
      using IH(5) [OF d m] .
    have k2: "kept propName (fst (out1, tr1)) (fst s')"
      using IH(6) [OF d m refl r] .
    from k1 k2 show ?thesis by (auto intro: kept_trans)
  qed
qed (auto simp: kept_refl)

subsection \<open>Empty branches\<close>





subsection \<open>Maps\<close>

text \<open>
  C4. With \<open>maps: { color: (v) => ({ fill: v }) }\<close> and
  \<open>sx: { color: { default: 'black', hover: 'red' } }\<close>, no boundary and the default
  selectors, the hook returns exactly \<open>{ fill: 'black', "&:hover": { fill: 'red' } }\<close>, and
  the one call of the map function receives the whole selector map.
\<close>

theorem map_expansion_law:
  "useSx None None
     \<lparr> opt_control = None,
       opt_maps = Some [(''color'', \<lambda>v th. [(''fill'', v)])],
       opt_selectors = None, opt_theme = (None :: unit theme option),
       opt_sx = Single [(''color'', Obj [(''default'', Lit (PStr ''black'')),
                                         (''hover'', Lit (PStr ''red''))])] \<rparr>
   = Inr (CObj [(''fill'', CPrim (PStr ''black'')),
                (''&:hover'', CObj [(''fill'', CPrim (PStr ''red''))])],
          [MapCall ''color''
             (Obj [(''default'', Lit (PStr ''black'')), (''hover'', Lit (PStr ''red''))])
             Map.empty])"
  by (simp add: compile_defs)

lemma map_call_keys_append:
  "map_call_keys (xs @ ys) = map_call_keys xs @ map_call_keys ys"
  by (induction xs rule: map_call_keys.induct) simp_all

lemma theme_calls_append: "theme_calls n (xs @ ys) = theme_calls n xs @ theme_calls n ys"
  by (induction xs rule: theme_calls.induct) simp_all

lemma expandMaps_trace:
  "expandMaps maps th (so, tr) = Inr (so', tr') \<Longrightarrow>
   map_call_keys tr' = map_call_keys tr @ map fst maps
   \<and> length tr' = length tr + length maps
   \<and> theme_calls n tr' = theme_calls n tr
   \<and> take (length tr) tr' = tr"
proof (induction maps arbitrary: so tr)
  case Nil
  then show ?case by simp
next
  case (Cons m maps)
  obtain k f where m: "m = (k, f)" by (cases m)
  from Cons.prems obtain v so1
    where "expandMaps maps th (so1, tr @ [MapCall k v th]) = Inr (so', tr')"
    by (auto simp: m split: sum.splits)
  from Cons.IH [OF this] show ?case
    by (simp add: m map_call_keys_append theme_calls_append)
       (metis append_eq_conv_conj butlast_snoc butlast_take diff_Suc_1 length_append_singleton take_all_iff le_add1 length_take min.absorb2 take_take)
qed

lemma assign_prop_Inr:
  assumes "assign_prop isp tgt kv = Inr tgt1"
  shows "(fst kv = ''__proto__'' \<and> map_of tgt ''__proto__'' = None \<and> tgt1 = tgt)
         \<or> (\<not> (fst kv = ''__proto__'' \<and> map_of tgt ''__proto__'' = None)
            \<and> tgt1 = own_put (fst kv) (snd kv) tgt)"
  using assms by (auto simp: assign_prop_def split: if_splits)

lemma map_of_object_assign_other:
  "object_assign isp tgt src = Inr tgt' \<Longrightarrow> K \<notin> fst ` set src \<Longrightarrow>
   map_of tgt' K = map_of tgt K"
proof (induction src arbitrary: tgt)
  case Nil
  then show ?case by simp
next
  case (Cons kv src)
  from Cons.prems(1) obtain tgt1 where a: "assign_prop isp tgt kv = Inr tgt1"
    and r: "object_assign isp tgt1 src = Inr tgt'"
    by (auto split: sum.splits)
  from Cons.prems(2) have k: "fst kv \<noteq> K" and rest: "K \<notin> fst ` set src" by auto
  from assign_prop_Inr [OF a] k have "map_of tgt1 K = map_of tgt K"
    by (auto simp: map_of_own_put)
  with Cons.IH [OF r rest] show ?case by simp
qed








lemma map_value_at:
  assumes "K \<notin> fst ` set pre"
    and "\<forall>kg \<in> set pre. \<forall>v. K \<notin> fst ` set (snd kg v th)"
    and "map_of so K \<noteq> None \<or> \<not> inherited K"
  shows "expandMaps (pre @ (K, f) # post) th (so, tr) = Inr (so', tr') \<Longrightarrow>
         tr' ! (length tr + length pre)
           = MapCall K (case map_of so K of Some v \<Rightarrow> v | None \<Rightarrow> Lit PUndefined) th"
  using assms
proof (induction pre arbitrary: so tr)
  case Nil
  from Nil.prems(1,4) obtain so1
    where r: "expandMaps post th
                (so1, tr @ [MapCall K (case map_of so K of Some v \<Rightarrow> v
                                       | None \<Rightarrow> Lit PUndefined) th]) = Inr (so', tr')"
    by (auto simp: read_prop_def split: sum.splits option.splits if_splits)
  from expandMaps_trace [OF r, of K]
  have "take (Suc (length tr)) tr'
        = tr @ [MapCall K (case map_of so K of Some v \<Rightarrow> v | None \<Rightarrow> Lit PUndefined) th]"
    by simp
  then have "take (Suc (length tr)) tr' ! length tr
        = MapCall K (case map_of so K of Some v \<Rightarrow> v | None \<Rightarrow> Lit PUndefined) th"
    by simp
  then show ?case by simp
next
  case (Cons kg pre)
  obtain k g where kg: "kg = (k, g)" by (cases kg)
  from Cons.prems(1) obtain v so1
    where a: "object_assign sx_prototype (AList.delete k so) (g v th) = Inr so1"
      and r: "expandMaps (pre @ (K, f) # post) th (so1, tr @ [MapCall k v th]) = Inr (so', tr')"
    by (auto simp: kg split: sum.splits)
  from Cons.prems(2) have kK: "k \<noteq> K" and pre: "K \<notin> fst ` set pre" by (auto simp: kg)
  from Cons.prems(3) have out: "K \<notin> fst ` set (g v th)"
    and rest: "\<forall>kg \<in> set pre. \<forall>v. K \<notin> fst ` set (snd kg v th)"
    by (auto simp: kg)
  have "map_of so1 K = map_of (AList.delete k so) K"
    using a out by (rule map_of_object_assign_other)
  then have same: "map_of so1 K = map_of so K" using kK by (simp add: delete_conv')
  with Cons.prems(4) have ok: "map_of so1 K \<noteq> None \<or> \<not> inherited K" by simp
  from Cons.IH [OF r pre rest ok] show ?case by (simp add: same)
qed

text \<open>
  C5 (as amended). The map loop calls the map function of every key of the table exactly
  once, in table order, whether or not the key is present in the merged specification.
  The function of a key \<open>K\<close> that no earlier map function produces receives the value of
  the merged specification at \<open>K\<close>, and \<open>undefined\<close> when \<open>K\<close> is absent and names no
  inherited member.
\<close>

theorem maps_always_invoked:
  assumes "expandMaps maps th (styleObject, []) = Inr (so', tr)"
  shows "map_call_keys tr = map fst maps \<and> length tr = length maps
    \<and> (\<forall>pre K f post.
          maps = pre @ (K, f) # post \<and> K \<notin> fst ` set pre
            \<and> (\<forall>kg \<in> set pre. \<forall>v. K \<notin> fst ` set (snd kg v th))
            \<and> (map_of styleObject K \<noteq> None \<or> \<not> inherited K)
          \<longrightarrow> tr ! length pre
                = MapCall K (case map_of styleObject K of Some v \<Rightarrow> v
                             | None \<Rightarrow> Lit PUndefined) th)"
proof (intro conjI allI impI)
  show "map_call_keys tr = map fst maps" and "length tr = length maps"
    using expandMaps_trace [OF assms, of undefined] by simp_all
next
  fix pre K f post
  assume h: "maps = pre @ (K, f) # post \<and> K \<notin> fst ` set pre
            \<and> (\<forall>kg \<in> set pre. \<forall>v. K \<notin> fst ` set (snd kg v th))
            \<and> (map_of styleObject K \<noteq> None \<or> \<not> inherited K)"
  then have "expandMaps (pre @ (K, f) # post) th (styleObject, []) = Inr (so', tr)"
    using assms by simp
  from map_value_at [OF _ _ _ this] h
  show "tr ! length pre
        = MapCall K (case map_of styleObject K of Some v \<Rightarrow> v | None \<Rightarrow> Lit PUndefined) th"
    by simp
qed

theorem maps_always_invoked_witness:
  "expandMaps [(''size'', \<lambda>v th. [(''borderWidth'', Lit (PNum 1))])] (Map.empty :: unit theme)
     ([], [])
     = Inr ([(''borderWidth'', Lit (PNum 1))], [MapCall ''size'' (Lit PUndefined) Map.empty])
   \<and> [MapCall ''size'' (Lit PUndefined) (Map.empty :: unit theme)] ! 0
     = MapCall ''size'' (Lit PUndefined) Map.empty"
  using maps_always_invoked [of "[(''size'', \<lambda>v th. [(''borderWidth'', Lit (PNum 1))])]"
      "Map.empty :: unit theme" "[]" "[(''borderWidth'', Lit (PNum 1))]"
      "[MapCall ''size'' (Lit PUndefined) Map.empty]"]
  by (simp add: compile_defs)

text \<open>
  C5, as stated, fails: with an empty specification the map function of the key \<open>size\<close> is
  called all the same, with \<open>undefined\<close>, and what it returns reaches the output.
\<close>

theorem map_absent_key_counterexample:
  "compileSx \<lparr> opt_control = None,
       opt_maps = Some [(''size'', \<lambda>v th. [(''borderWidth'', Lit (PNum 1))])],
       opt_selectors = Some defaultSelectors, opt_theme = (None :: unit theme option),
       opt_sx = Single [] \<rparr>
   = Inr (CObj [(''borderWidth'', CPrim (PNum 1))],
          [MapCall ''size'' (Lit PUndefined) Map.empty])"
  by (simp add: compile_defs)

subsection \<open>Merging\<close>









subsection \<open>Theme functions\<close>









lemma props_same_kind:
  "compileProps th sels ctl so s props = Inr s' \<Longrightarrow> same_kind (fst s) (fst s')"
proof (induction props arbitrary: s)
  case Nil
  then show ?case by (cases s) (auto simp: same_kind_refl)
next
  case (Cons p props)
  obtain out0 tr where s: "s = (out0, tr)" by (cases s)
  from Cons.prems(1) obtain x s1
    where m: "mutableCompileSxProperty th sels ctl (out0, tr) p x = Inr s1"
      and r: "compileProps th sels ctl so s1 props = Inr s'"
    by (auto simp: s split: sum.splits)
  from compile_kept(1) [OF m] have "same_kind out0 (fst s1)" by (simp add: kept_def)
  with Cons.IH [OF r] show ?case by (auto simp: s intro: same_kind_trans)
qed





section \<open>Properties of the compiler over the store\<close>

lemmas store_defs = compileSx_h_def themedCSS_h_def mergeSx_h_def spread_h_def assign_h_def
  put_props_def own_props_def new_object_def ensure_level_h_def resolve_selector_h_def
  defaultSelectors_h_def assign_prop_def define_props_def isPlainObject_h_def own_put_def
  inherited_def array_index_def canonical_index_def digit_val_def Let_def

subsection \<open>What a call leaves of the store it was given\<close>




















subsection \<open>The two models on one input\<close>

text \<open>
  The theme \<open>{ color: 'blue' }\<close>, the map \<open>tone: (v) => ({ fill: v })\<close> and the
  specification \<open>{ tone: { default: (theme) => theme.color, hover: 'red' } }\<close> compile to
  the same output over values and over the store.
\<close>

lemma models_agree_on_example:
  "result_css 3 (compileSx_h theme_color 3 options_ok heap_ok)
     = Inr (CObj [(''fill'', CPrim (PStr ''blue'')),
                  (''&:hover'', CObj [(''fill'', CPrim (PStr ''red''))])])
   \<and> map_sum id fst
        (compileSx
           \<lparr> opt_control = None, opt_maps = Some [(''tone'', \<lambda>v th. [(''fill'', v)])],
             opt_selectors = Some defaultSelectors,
             opt_theme = Some [''color'' \<mapsto> PStr ''blue''],
             opt_sx = Many [Item [(''tone'',
                        Obj [(''default'',
                                Fun ''f'' (\<lambda>th. case th ''color'' of Some p \<Rightarrow> p
                                                   | None \<Rightarrow> PUndefined)),
                             (''hover'', Lit (PStr ''red''))])],
                            Falsy] \<rparr>)
     = Inr (CObj [(''fill'', CPrim (PStr ''blue'')),
                  (''&:hover'', CObj [(''fill'', CPrim (PStr ''red''))])])"
  by (simp add: store_defs compile_defs heap_ok_def options_ok_def theme_color_def fill_map_def
      eval_nat_numeral)

subsection \<open>Inputs are not changed\<close>




subsection \<open>Two calls on the same inputs\<close>


























































subsection \<open>Determinism\<close>








end
